theory Spec2Isabelle
  imports Main
begin

section \<open>Python string operations used by the handler\<close>

text \<open>
  The request line is decoded as ISO-8859-1, so every character of \<open>self.path\<close> is one
  \<^typ>\<open>char\<close>. The functions below are \<open>str.startswith\<close>, \<open>str.split\<close> and
  \<open>str.partition\<close> with a one-character separator, and \<open>str.replace\<close>.
\<close>

definition startswith :: "string \<Rightarrow> string \<Rightarrow> bool" where
  "startswith s p = (take (length p) s = p)"

text \<open>\<open>s.split(sep)\<close>: cuts at every separator, and always returns at least one part.\<close>

fun split_on :: "char \<Rightarrow> string \<Rightarrow> string list" where
  "split_on sep [] = [[]]"
| "split_on sep (c # cs) =
     (if c = sep then [] # split_on sep cs
      else (case split_on sep cs of
              [] \<Rightarrow> [[c]]
            | p # ps \<Rightarrow> (c # p) # ps))"

text \<open>\<open>s.partition(sep)\<close>: the text before the first separator, whether there is one,
  and the text after it.\<close>

definition partition_on :: "char \<Rightarrow> string \<Rightarrow> string \<times> bool \<times> string" where
  "partition_on sep s =
     (let before = takeWhile (\<lambda>c. c \<noteq> sep) s;
          rest = dropWhile (\<lambda>c. c \<noteq> sep) s
      in (before, rest \<noteq> [], drop 1 rest))"

text \<open>\<open>s.replace(old, new)\<close>: every non-overlapping occurrence of \<open>old\<close>, found from
  left to right, is replaced; with an empty \<open>old\<close>, \<open>new\<close> is put around every character.\<close>

function replace :: "string \<Rightarrow> string \<Rightarrow> string \<Rightarrow> string" where
  "replace old new s =
     (if old = [] then concat (map (\<lambda>c. new @ [c]) s) @ new
      else if s = [] then []
      else if take (length old) s = old then new @ replace old new (drop (length old) s)
      else hd s # replace old new (tl s))"
  by pat_completeness auto
termination
  by (relation "measure (\<lambda>(old, new, s). length s)") auto

declare replace.simps [simp del]

text \<open>\<open>old in s\<close>: whether \<open>old\<close> occurs in \<open>s\<close>.\<close>

fun contains :: "string \<Rightarrow> string \<Rightarrow> bool" where
  "contains old [] = (old = [])"
| "contains old (c # cs) = (take (length old) (c # cs) = old \<or> contains old cs)"

text \<open>\<open>str(n)\<close> for a length.\<close>

definition digit_char :: "nat \<Rightarrow> char" where
  "digit_char d = char_of (48 + d)"

function str_nat :: "nat \<Rightarrow> string" where
  "str_nat n = (if n < 10 then [digit_char n] else str_nat (n div 10) @ [digit_char (n mod 10)])"
  by pat_completeness auto
termination
  by (relation "measure id") auto

declare str_nat.simps [simp del]

section \<open>Text beyond ISO-8859-1\<close>

text \<open>
  The text of an exception is a Python \<open>str\<close> that need not come from the request line,
  so it can hold any code point: it is a list of code points. \<open>code_points\<close> is the
  text of a \<^typ>\<open>string\<close>, and \<open>encode_latin1\<close> is \<open>.encode('latin-1', 'strict')\<close>, which
  fails on a code point above 255.
\<close>

type_synonym ustring = "nat list"

definition code_points :: "string \<Rightarrow> ustring" where
  "code_points s = map of_char s"

fun encode_latin1 :: "ustring \<Rightarrow> string option" where
  "encode_latin1 [] = Some []"
| "encode_latin1 (c # cs) =
     (if c < 256 then
        (case encode_latin1 cs of
           None \<Rightarrow> None
         | Some line \<Rightarrow> Some (char_of c # line))
      else None)"

text \<open>The one exception that leaves the handler.\<close>

datatype error = UnicodeEncodeError

section \<open>The standard library's query parser\<close>

text \<open>
  \<open>urllib.parse.parse_qs\<close> of CPython 3.11, as the handler calls it (defaults: blank
  values dropped, no strict parsing, separator \<open>&\<close>). \<open>unquote\<close> returns a string without \<open>%\<close> as it is;
  the decoding of percent escapes is the parameter \<open>dec\<close>.
\<close>

definition unquote :: "(string \<Rightarrow> string) \<Rightarrow> string \<Rightarrow> string" where
  "unquote dec s = (if CHR ''%'' \<in> set s then dec s else s)"

definition unquote_plus :: "(string \<Rightarrow> string) \<Rightarrow> string \<Rightarrow> string" where
  "unquote_plus dec s = unquote dec (replace ''+'' '' '' s)"

fun parse_fields :: "(string \<Rightarrow> string) \<Rightarrow> string list \<Rightarrow> (string \<times> string) list" where
  "parse_fields dec [] = []"
| "parse_fields dec (name_value # more) =
     (if name_value \<noteq> [] then
        (case partition_on CHR ''='' name_value of
           (name, has_eq, val) \<Rightarrow>
             if val \<noteq> [] then (unquote_plus dec name, unquote_plus dec val) # parse_fields dec more
             else parse_fields dec more)
      else parse_fields dec more)"

definition parse_qsl :: "(string \<Rightarrow> string) \<Rightarrow> string \<Rightarrow> (string \<times> string) list" where
  "parse_qsl dec qs = (if qs = [] then [] else parse_fields dec (split_on CHR ''&'' qs))"

fun collect_pairs ::
  "(string \<times> string) list \<Rightarrow> (string \<rightharpoonup> string list) \<Rightarrow> (string \<rightharpoonup> string list)" where
  "collect_pairs [] parsed_result = parsed_result"
| "collect_pairs ((name, val) # pairs) parsed_result =
     collect_pairs pairs
       (case parsed_result name of
          Some vals \<Rightarrow> parsed_result(name \<mapsto> vals @ [val])
        | None \<Rightarrow> parsed_result(name \<mapsto> [val]))"

definition parse_qs :: "(string \<Rightarrow> string) \<Rightarrow> string \<Rightarrow> (string \<rightharpoonup> string list)" where
  "parse_qs dec qs = collect_pairs (parse_qsl dec qs) Map.empty"

section \<open>The handler's view of the HTTP library\<close>

text \<open>
  The model stands at the interface between the handler and \<open>http.server\<close>: a response is
  what the handler hands to \<open>send_response\<close>, \<open>send_header\<close>, \<open>end_headers\<close> and
  \<open>wfile.write\<close>. How the library renders it on the wire (the protocol version of the
  status line, the header-less replies to HTTP/0.9 requests, logging) is not part of it.
\<close>

text \<open>The exceptions the \<open>try\<close> block tells apart, each with the text it is printed as:
  \<open>HTTPError\<close> with \<open>code\<close> and \<open>reason\<close> (the reason phrase of the upstream's reply,
  which \<open>http.client\<close> decodes as ISO-8859-1), any other \<open>URLError\<close> with \<open>str(reason)\<close>,
  any other \<open>Exception\<close> with \<open>str(e)\<close>.\<close>

datatype exn = HTTPError int string | URLError ustring | Exception ustring

text \<open>The outbound call: the \<open>Request\<close> and the arguments of \<open>urlopen\<close>.\<close>

record outbound =
  url :: string
  req_headers :: "(string \<times> string) list"
  verify_tls :: bool
  timeout :: nat

text \<open>What \<open>SimpleHTTPRequestHandler.send_head\<close> decides for a path: an error reply, or
  a status, headers and the content that \<open>do_GET\<close> copies to the client.\<close>

datatype static_reply =
  Not_served int string
| Served int "(string \<times> string) list" string

text \<open>The collaborators of a request: the percent decoder of \<open>unquote\<close> (its result is
  kept within ISO-8859-1; a wider text reaches the handler only as the text of an
  exception), the upstream as \<open>urlopen\<close> followed by \<open>read\<close> sees it, the static-file
  lookup, the values of the \<open>Server\<close> and \<open>Date\<close> headers, and the HTML page of
  \<open>send_error\<close> (encoded).\<close>

record env =
  percent_decode :: "string \<Rightarrow> string"
  urlopen :: "outbound \<Rightarrow> exn + string"
  send_head :: "string \<Rightarrow> static_reply"
  version_string :: string
  date_time_string :: string
  error_page :: "int \<Rightarrow> ustring \<Rightarrow> string"

text \<open>The state of one request: the response built so far (the message of the status
  line as encoded), the outbound calls made, and the exception that left the handler, if
  one did.\<close>

record io =
  status_line :: "(int \<times> string option) option"
  headers :: "(string \<times> string) list"
  headers_ended :: bool
  wfile :: string
  outbound_calls :: "outbound list"
  raised :: "error option"

definition fresh :: io where
  "fresh = \<lparr>status_line = None, headers = [], headers_ended = False, wfile = [],
            outbound_calls = [], raised = None\<rparr>"

definition send_header :: "string \<Rightarrow> string \<Rightarrow> io \<Rightarrow> io" where
  "send_header keyword val s = s\<lparr>headers := headers s @ [(keyword, val)]\<rparr>"

text \<open>\<open>send_response\<close>: \<open>send_response_only\<close> encodes the status line with
  \<open>.encode('latin-1', 'strict')\<close> before it puts anything in the buffer, so a message with
  a code point above 255 raises \<open>UnicodeEncodeError\<close> and nothing is sent. Without a
  message the library's own phrase for the code is used.\<close>

definition send_response :: "env \<Rightarrow> int \<Rightarrow> ustring option \<Rightarrow> io \<Rightarrow> io" where
  "send_response e code message s =
     (case message of
        None \<Rightarrow>
          send_header ''Date'' (date_time_string e)
            (send_header ''Server'' (version_string e)
               (s\<lparr>status_line := Some (code, None)\<rparr>))
      | Some m \<Rightarrow>
          (case encode_latin1 m of
             None \<Rightarrow> s\<lparr>raised := Some UnicodeEncodeError\<rparr>
           | Some line \<Rightarrow>
               send_header ''Date'' (date_time_string e)
                 (send_header ''Server'' (version_string e)
                    (s\<lparr>status_line := Some (code, Some line)\<rparr>))))"

definition base_end_headers :: "io \<Rightarrow> io" where
  "base_end_headers s = s\<lparr>headers_ended := True\<rparr>"

definition wfile_write :: "string \<Rightarrow> io \<Rightarrow> io" where
  "wfile_write data s = s\<lparr>wfile := wfile s @ data\<rparr>"

text \<open>\<open>BaseHTTPRequestHandler.send_error\<close> with a message. It ends the headers through
  \<open>self.end_headers\<close>, the first argument here, so a subclass's override applies. An
  exception raised by \<open>send_response\<close> leaves \<open>send_error\<close> at once.\<close>

definition send_error ::
  "(io \<Rightarrow> io) \<Rightarrow> env \<Rightarrow> string \<Rightarrow> int \<Rightarrow> ustring \<Rightarrow> io \<Rightarrow> io" where
  "send_error self_end_headers e command code message s =
     (let s0 = send_response e code (Some message) s in
      case raised s0 of
        Some err \<Rightarrow> s0
      | None \<Rightarrow>
          (let s1 = send_header ''Connection'' ''close'' s0 in
           if code \<ge> 200 \<and> code \<notin> {204, 205, 304} then
             (let body = error_page e code message;
                  s2 = send_header ''Content-Length'' (str_nat (length body))
                         (send_header ''Content-Type'' ''text/html;charset=utf-8'' s1);
                  s3 = self_end_headers s2
              in if command \<noteq> ''HEAD'' \<and> body \<noteq> [] then wfile_write body s3 else s3)
           else self_end_headers s1))"

text \<open>\<open>SimpleHTTPRequestHandler.do_GET\<close>: \<open>send_head\<close> either sends an error or a status
  and headers, ended through \<open>self.end_headers\<close>; then the content is copied.\<close>

definition static_do_GET :: "(io \<Rightarrow> io) \<Rightarrow> env \<Rightarrow> string \<Rightarrow> io \<Rightarrow> io" where
  "static_do_GET self_end_headers e path s =
     (case send_head e path of
        Not_served code message \<Rightarrow>
          send_error self_end_headers e ''GET'' code (code_points message) s
      | Served code hs content \<Rightarrow>
          wfile_write content
            (self_end_headers
               (foldl (\<lambda>s' (k, v). send_header k v s') (send_response e code None s) hs)))"

section \<open>\<open>CORSRequestHandler\<close>\<close>

definition end_headers :: "io \<Rightarrow> io" where
  "end_headers s =
     base_end_headers
       (send_header ''Access-Control-Allow-Headers'' ''Content-Type''
          (send_header ''Access-Control-Allow-Methods'' ''GET, POST, OPTIONS''
             (send_header ''Access-Control-Allow-Origin'' ''*'' s)))"

definition do_OPTIONS :: "env \<Rightarrow> string \<Rightarrow> io \<Rightarrow> io" where
  "do_OPTIONS e path s = end_headers (send_response e 200 None s)"

definition interval_map :: "string \<rightharpoonup> string" where
  "interval_map = map_of
     [(''1d'', ''5m''), (''5d'', ''15m''), (''1mo'', ''1d''),
      (''3mo'', ''1d''), (''6mo'', ''1d''), (''1y'', ''1wk'')]"

definition get_interval :: "string \<Rightarrow> string" where
  "get_interval period = (case interval_map period of Some i \<Rightarrow> i | None \<Rightarrow> ''1d'')"

text \<open>Lines 32 to 41: the symbol and the period of a path. An index out of range is the
  \<open>IndexError\<close> Python raises.\<close>

definition parse_path :: "env \<Rightarrow> string \<Rightarrow> exn + (string \<times> string)" where
  "parse_path e path =
     (case split_on CHR ''?'' path of
        [] \<Rightarrow> Inl (Exception (code_points ''list index out of range''))
      | p0 # rest \<Rightarrow>
          (let symbol = replace ''/api/quote/'' [] p0 in
           case rest of
             [] \<Rightarrow> Inr (symbol, ''1d'')
           | q # _ \<Rightarrow>
               (case parse_qs (percent_decode e) q ''period'' of
                  None \<Rightarrow> Inr (symbol, ''1d'')
                | Some [] \<Rightarrow> Inl (Exception (code_points ''list index out of range''))
                | Some (v # _) \<Rightarrow> Inr (symbol, v))))"

text \<open>Lines 43 to 65: the interval, the URL and the request.\<close>

definition build_request :: "string \<Rightarrow> string \<Rightarrow> outbound" where
  "build_request symbol period =
     (let interval = get_interval period in
      \<lparr>url = ''https://query1.finance.yahoo.com/v8/finance/chart/'' @ symbol
               @ ''?interval='' @ interval @ ''&range='' @ period,
       req_headers = [(''User-Agent'',
          ''Mozilla/5.0 (Windows NT 10.0; Win64; x64) AppleWebKit/537.36 (KHTML, like Gecko) Chrome/91.0.4472.124 Safari/537.36'')],
       verify_tls = False,
       timeout = 10\<rparr>)"

text \<open>The three \<open>except\<close> clauses, in the order of the source. Nothing catches what
  \<open>send_error\<close> raises.\<close>

fun handle_exn :: "env \<Rightarrow> exn \<Rightarrow> io \<Rightarrow> io" where
  "handle_exn e (HTTPError code reason) s =
     send_error end_headers e ''GET'' code (code_points ''API Error: '' @ code_points reason) s"
| "handle_exn e (URLError reason) s =
     send_error end_headers e ''GET'' 500 (code_points ''Connection Error: '' @ reason) s"
| "handle_exn e (Exception text) s =
     send_error end_headers e ''GET'' 500 (code_points ''Server Error: '' @ text) s"

definition handle_api_request :: "env \<Rightarrow> string \<Rightarrow> io \<Rightarrow> io" where
  "handle_api_request e path s =
     (case parse_path e path of
        Inl ex \<Rightarrow> handle_exn e ex s
      | Inr (symbol, period) \<Rightarrow>
          (let req = build_request symbol period;
               s1 = s\<lparr>outbound_calls := outbound_calls s @ [req]\<rparr>
           in case urlopen e req of
                Inl ex \<Rightarrow> handle_exn e ex s1
              | Inr data \<Rightarrow>
                  wfile_write data
                    (end_headers
                       (send_header ''Content-Type'' ''application/json''
                          (send_response e 200 None s1)))))"

definition do_GET :: "env \<Rightarrow> string \<Rightarrow> io \<Rightarrow> io" where
  "do_GET e path s =
     (if startswith path ''/api/quote/'' then handle_api_request e path s
      else static_do_GET end_headers e path s)"

section \<open>A test environment\<close>

text \<open>An environment with a fixed upstream outcome, used to run the handler on
  concrete requests.\<close>

definition test_env :: "(exn + string) \<Rightarrow> env" where
  "test_env outcome =
     \<lparr>percent_decode = id,
      urlopen = (\<lambda>req. outcome),
      send_head = (\<lambda>path. if path = ''/index.html''
                             then Served 200 [(''Content-type'', ''text/html'')] ''<html></html>''
                             else Not_served 404 ''File not found''),
      version_string = ''SimpleHTTP/0.6 Python/3.11.10'',
      date_time_string = ''Tue, 03 Nov 2026 15:40:00 GMT'',
      error_page = (\<lambda>code message. ''<html>error</html>'')\<rparr>"

section \<open>Auxiliary facts\<close>

lemma split_on_not_Nil: "split_on sep s \<noteq> []"
  by (induction s) (auto split: list.splits)

lemma split_on_no_sep: "sep \<notin> set s \<Longrightarrow> split_on sep s = [s]"
  by (induction s) auto

lemma split_on_append: "sep \<notin> set a \<Longrightarrow> split_on sep (a @ sep # r) = a # split_on sep r"
  by (induction a) auto

lemma collect_pairs_nonempty:
  "(\<And>k. d k \<noteq> Some []) \<Longrightarrow> collect_pairs ps d k \<noteq> Some []"
proof (induction ps arbitrary: d)
  case Nil
  then show ?case by simp
next
  case (Cons p ps)
  obtain name v where p: "p = (name, v)" by (cases p)
  show ?case unfolding p collect_pairs.simps
    by (rule Cons.IH) (auto split: option.splits simp: Cons.prems)
qed

lemma parse_qs_nonempty: "parse_qs dec qs k \<noteq> Some []"
  unfolding parse_qs_def by (rule collect_pairs_nonempty) simp

lemma parse_path_total: "\<exists>symbol period. parse_path e path = Inr (symbol, period)"
  using split_on_not_Nil [of "CHR ''?''" path] parse_qs_nonempty
  by (auto simp: parse_path_def Let_def split: list.splits option.splits)


lemma foldl_send_header_other:
  "status_line (foldl (\<lambda>s' (k, v). send_header k v s') s hs) = status_line s"
  "wfile (foldl (\<lambda>s' (k, v). send_header k v s') s hs) = wfile s"
  "outbound_calls (foldl (\<lambda>s' (k, v). send_header k v s') s hs) = outbound_calls s"
  by (induction hs arbitrary: s) (auto simp: send_header_def)

lemmas out_defs = send_response_def send_header_def end_headers_def base_end_headers_def
  wfile_write_def

lemma of_char_below_256: "of_char c < (256::nat)"
  by (metis of_char_mod_256 mod_less_divisor zero_less_numeral)

lemma encode_latin1_code_points: "encode_latin1 (code_points s) = Some s"
  by (induction s) (simp_all add: code_points_def of_char_below_256)

lemma encode_latin1_prefixed:
  "encode_latin1 (code_points p @ code_points s) = Some (p @ s)"
  using encode_latin1_code_points [of "p @ s"] by (simp add: code_points_def)

lemma send_error_calls:
  "outbound_calls (send_error end_headers e cmd code msg s) = outbound_calls s"
  by (simp add: send_error_def Let_def out_defs split: option.splits)

lemma send_error_raises:
  "encode_latin1 msg = None \<Longrightarrow>
   send_error self_end_headers e cmd code msg s = s\<lparr>raised := Some UnicodeEncodeError\<rparr>"
  by (simp add: send_error_def Let_def send_response_def)

lemma send_error_sent:
  assumes "encode_latin1 msg = Some line" and "raised s = None"
  shows "status_line (send_error end_headers e cmd code msg s) = Some (code, Some line)"
    and "headers_ended (send_error end_headers e cmd code msg s)"
    and "raised (send_error end_headers e cmd code msg s) = None"
  using assms by (simp_all add: send_error_def Let_def out_defs)

lemma send_error_replied:
  assumes "raised (send_error end_headers e cmd code msg s) = None"
  shows "headers_ended (send_error end_headers e cmd code msg s)"
    and "\<exists>hs. headers (send_error end_headers e cmd code msg s) = headers s @ hs @
     [(''Access-Control-Allow-Origin'', ''*''),
      (''Access-Control-Allow-Methods'', ''GET, POST, OPTIONS''),
      (''Access-Control-Allow-Headers'', ''Content-Type'')]"
  using assms by (auto simp add: send_error_def Let_def out_defs split: option.splits)


lemma handle_exn_calls: "outbound_calls (handle_exn e ex s) = outbound_calls s"
  by (cases ex) (simp_all add: send_error_calls)

lemma startswith_iff: "startswith s p \<longleftrightarrow> (\<exists>rest. s = p @ rest)"
  unfolding startswith_def
  by (metis append_eq_conv_conj append_take_drop_id)



lemma parse_path_AAPL_5d: "parse_path e ''/api/quote/AAPL?period=5d'' = Inr (''AAPL'', ''5d'')"
  by (simp add: parse_path_def parse_qs_def parse_qsl_def partition_on_def unquote_plus_def
      unquote_def replace.simps)

lemma parse_path_AAPL: "parse_path e ''/api/quote/AAPL'' = Inr (''AAPL'', ''1d'')"
  by (simp add: parse_path_def replace.simps)


lemma send_response_fields:
  "headers (send_response e code None s)
     = headers s @ [(''Server'', version_string e), (''Date'', date_time_string e)]"
  "outbound_calls (send_response e code None s) = outbound_calls s"
  "raised (send_response e code None s) = raised s"
  by (simp_all add: send_response_def send_header_def)

lemma end_headers_fields:
  "headers (end_headers s) = headers s @
     [(''Access-Control-Allow-Origin'', ''*''),
      (''Access-Control-Allow-Methods'', ''GET, POST, OPTIONS''),
      (''Access-Control-Allow-Headers'', ''Content-Type'')]"
  "outbound_calls (end_headers s) = outbound_calls s"
  "headers_ended (end_headers s)"
  by (simp_all add: end_headers_def base_end_headers_def send_header_def)

lemma wfile_write_fields:
  "headers (wfile_write data s) = headers s"
  "outbound_calls (wfile_write data s) = outbound_calls s"
  "headers_ended (wfile_write data s) = headers_ended s"
  by (simp_all add: wfile_write_def)


lemma static_do_GET_calls:
  "outbound_calls (static_do_GET end_headers e path s) = outbound_calls s"
  by (cases "send_head e path")
     (simp_all add: static_do_GET_def send_error_calls end_headers_fields
        wfile_write_fields foldl_send_header_other send_response_fields)

lemma handle_api_request_calls:
  "length (outbound_calls (handle_api_request e path s)) = Suc (length (outbound_calls s))"
proof -
  obtain symbol period where p: "parse_path e path = Inr (symbol, period)"
    using parse_path_total by blast
  show ?thesis
    by (simp add: handle_api_request_def p Let_def handle_exn_calls out_defs split: sum.splits)
qed

lemma parse_qs_foo_bar: "parse_qs dec ''foo=bar'' ''period'' = None"
  by (simp add: parse_qs_def parse_qsl_def partition_on_def unquote_plus_def
      unquote_def replace.simps)

subsection \<open>The symbol when the prefix occurs once\<close>

lemma replace_without_occurrence:
  "old \<noteq> [] \<Longrightarrow> \<not> contains old s \<Longrightarrow> replace old new s = s"
proof (induction s)
  case Nil
  then show ?case by (simp add: replace.simps)
next
  case (Cons c cs)
  then have "take (length old) (c # cs) \<noteq> old" and "\<not> contains old cs" by auto
  then show ?case
    using Cons by (subst replace.simps) simp
qed

lemma replace_strips_unique_prefix:
  assumes "old \<noteq> []" and "\<not> contains old rest"
  shows "replace old [] (old @ rest) = rest"
proof -
  have "replace old [] (old @ rest) = replace old [] rest"
    using assms(1) by (subst replace.simps) simp
  then show ?thesis using assms by (simp add: replace_without_occurrence)
qed

lemma symbol_when_prefix_occurs_once:
  assumes "CHR ''?'' \<notin> set rest" and "\<not> contains ''/api/quote/'' rest"
  shows "parse_path e (''/api/quote/'' @ rest) = Inr (rest, ''1d'')"
proof -
  have "CHR ''?'' \<notin> set (''/api/quote/'' @ rest)" using assms(1) by simp
  then have "split_on CHR ''?'' (''/api/quote/'' @ rest) = [''/api/quote/'' @ rest]"
    by (rule split_on_no_sep)
  moreover have "replace ''/api/quote/'' [] (''/api/quote/'' @ rest) = rest"
    using assms(2) by (intro replace_strips_unique_prefix) simp_all
  ultimately show ?thesis by (simp add: parse_path_def)
qed

section \<open>The claims\<close>

text \<open>
  Claim C1. For every quote request whose outbound call succeeds, the handler responds
  with status 200, sets the content-type header to application/json, and writes exactly
  the bytes read from the upstream response as the body. The headers sent are listed, and
  they are ended before the body.
\<close>

theorem proxy_success_relays_upstream:
  assumes "startswith path ''/api/quote/''"
    and "parse_path e path = Inr (symbol, period)"
    and "urlopen e (build_request symbol period) = Inr data"
  shows "status_line (do_GET e path s) = Some (200, None)
       \<and> (''Content-Type'', ''application/json'') \<in> set (headers (do_GET e path s))
       \<and> wfile (do_GET e path s) = wfile s @ data
       \<and> wfile (do_GET e path fresh) = data
       \<and> headers_ended (do_GET e path s)
       \<and> headers (do_GET e path s) = headers s @
           [(''Server'', version_string e), (''Date'', date_time_string e),
            (''Content-Type'', ''application/json''),
            (''Access-Control-Allow-Origin'', ''*''),
            (''Access-Control-Allow-Methods'', ''GET, POST, OPTIONS''),
            (''Access-Control-Allow-Headers'', ''Content-Type'')]
       \<and> raised (do_GET e path s) = raised s"
  using assms by (simp add: do_GET_def handle_api_request_def Let_def out_defs fresh_def)

theorem proxy_success_relays_upstream_witness:
  "startswith ''/api/quote/AAPL?period=5d'' ''/api/quote/''
   \<and> parse_path (test_env (Inr ''{}'')) ''/api/quote/AAPL?period=5d'' = Inr (''AAPL'', ''5d'')
   \<and> urlopen (test_env (Inr ''{}'')) (build_request ''AAPL'' ''5d'') = Inr ''{}''
   \<and> status_line (do_GET (test_env (Inr ''{}'')) ''/api/quote/AAPL?period=5d'' fresh) = Some (200, None)
   \<and> (''Content-Type'', ''application/json'')
        \<in> set (headers (do_GET (test_env (Inr ''{}'')) ''/api/quote/AAPL?period=5d'' fresh))
   \<and> wfile (do_GET (test_env (Inr ''{}'')) ''/api/quote/AAPL?period=5d'' fresh) = ''{}''
   \<and> headers_ended (do_GET (test_env (Inr ''{}'')) ''/api/quote/AAPL?period=5d'' fresh)"
proof -
  have a: "startswith ''/api/quote/AAPL?period=5d'' ''/api/quote/''"
    by (simp add: startswith_def)
  have b: "parse_path (test_env (Inr ''{}'')) ''/api/quote/AAPL?period=5d'' = Inr (''AAPL'', ''5d'')"
    by (rule parse_path_AAPL_5d)
  have c: "urlopen (test_env (Inr ''{}'')) (build_request ''AAPL'' ''5d'') = Inr ''{}''"
    by (simp add: test_env_def)
  show ?thesis
    using a b c proxy_success_relays_upstream [OF a b c, of fresh] by blast
qed

text \<open>
  Claim C2. The period-to-interval derivation is the fixed table, and every period that
  is not in the table gets the interval 1d.
\<close>

theorem interval_table:
  "get_interval ''1d'' = ''5m'' \<and> get_interval ''5d'' = ''15m'' \<and> get_interval ''1mo'' = ''1d''
   \<and> get_interval ''3mo'' = ''1d'' \<and> get_interval ''6mo'' = ''1d'' \<and> get_interval ''1y'' = ''1wk''
   \<and> (period \<notin> {''1d'', ''5d'', ''1mo'', ''3mo'', ''6mo'', ''1y''} \<longrightarrow> get_interval period = ''1d'')"
  by (simp add: get_interval_def interval_map_def)

theorem interval_table_witness:
  "''2y'' \<notin> {''1d'', ''5d'', ''1mo'', ''3mo'', ''6mo'', ''1y''} \<and> get_interval ''2y'' = ''1d''"
  using interval_table [of "''2y''"] by simp


text \<open>
  Claim C4. For every quote request the upstream URL is the fixed template instantiated
  with the extracted symbol, the derived interval and the period; for the path
  /api/quote/AAPL?period=5d it is the URL of AAPL with interval=15m&range=5d.
\<close>

theorem upstream_url_template:
  "(\<exists>symbol period. parse_path e path = Inr (symbol, period)
      \<and> map url (outbound_calls (handle_api_request e path s))
          = map url (outbound_calls s)
            @ [''https://query1.finance.yahoo.com/v8/finance/chart/'' @ symbol
               @ ''?interval='' @ get_interval period @ ''&range='' @ period])
   \<and> map url (outbound_calls (do_GET e ''/api/quote/AAPL?period=5d'' fresh))
       = [''https://query1.finance.yahoo.com/v8/finance/chart/AAPL?interval=15m&range=5d'']"
proof (rule conjI)
  obtain symbol period where p: "parse_path e path = Inr (symbol, period)"
    using parse_path_total by blast
  have "map url (outbound_calls (handle_api_request e path s))
        = map url (outbound_calls s) @ [url (build_request symbol period)]"
    by (simp add: handle_api_request_def p Let_def handle_exn_calls out_defs split: sum.splits)
  then show "\<exists>symbol period. parse_path e path = Inr (symbol, period)
      \<and> map url (outbound_calls (handle_api_request e path s))
          = map url (outbound_calls s)
            @ [''https://query1.finance.yahoo.com/v8/finance/chart/'' @ symbol
               @ ''?interval='' @ get_interval period @ ''&range='' @ period]"
    using p by (auto simp: build_request_def Let_def)
next
  have "map url (outbound_calls (handle_api_request e ''/api/quote/AAPL?period=5d'' fresh))
        = [url (build_request ''AAPL'' ''5d'')]"
    by (simp add: handle_api_request_def parse_path_AAPL_5d Let_def handle_exn_calls out_defs
        fresh_def split: sum.splits)
  then show "map url (outbound_calls (do_GET e ''/api/quote/AAPL?period=5d'' fresh))
       = [''https://query1.finance.yahoo.com/v8/finance/chart/AAPL?interval=15m&range=5d'']"
    by (simp add: do_GET_def startswith_def build_request_def get_interval_def interval_map_def)
qed

text \<open>
  Claim C3. The extracted symbol is the part of the path before any ? with the leading
  /api/quote/ stripped as a prefix. The handler uses \<open>str.replace\<close>, which removes every
  occurrence: on the path /api/quote/A/api/quote/B, whose remainder after the prefix is
  A/api/quote/B, the symbol is AB and the upstream is asked for AB.
\<close>

theorem symbol_replace_removes_every_occurrence:
  "startswith ''/api/quote/A/api/quote/B'' ''/api/quote/''
   \<and> drop (length ''/api/quote/'') ''/api/quote/A/api/quote/B'' = ''A/api/quote/B''
   \<and> parse_path e ''/api/quote/A/api/quote/B'' = Inr (''AB'', ''1d'')
   \<and> map url (outbound_calls (do_GET e ''/api/quote/A/api/quote/B'' fresh))
       = [''https://query1.finance.yahoo.com/v8/finance/chart/AB?interval=5m&range=1d'']"
proof -
  have p: "parse_path e ''/api/quote/A/api/quote/B'' = Inr (''AB'', ''1d'')"
    by (simp add: parse_path_def replace.simps)
  have "map url (outbound_calls (handle_api_request e ''/api/quote/A/api/quote/B'' fresh))
        = [url (build_request ''AB'' ''1d'')]"
    by (simp add: handle_api_request_def p Let_def handle_exn_calls out_defs
        fresh_def split: sum.splits)
  then show ?thesis
    using p
    by (simp add: do_GET_def startswith_def build_request_def get_interval_def interval_map_def)
qed

text \<open>
  Claim C5. When the path has no query component, and when the query component has no
  period key, the period is 1d and the interval is 5m. The query component is the text
  between the first and the second ?, and its keys are those of \<open>parse_qs\<close>.
\<close>

theorem default_period:
  "(CHR ''?'' \<notin> set path \<longrightarrow>
      parse_path e path = Inr (replace ''/api/quote/'' [] path, ''1d''))
   \<and> (CHR ''?'' \<notin> set base \<and> CHR ''?'' \<notin> set q \<and> (rest = [] \<or> hd rest = CHR ''?'')
        \<and> parse_qs (percent_decode e) q ''period'' = None \<longrightarrow>
      parse_path e (base @ ''?'' @ q @ rest) = Inr (replace ''/api/quote/'' [] base, ''1d''))
   \<and> get_interval ''1d'' = ''5m''
   \<and> url (build_request symbol ''1d'')
       = ''https://query1.finance.yahoo.com/v8/finance/chart/'' @ symbol
         @ ''?interval=5m&range=1d''"
proof (intro conjI impI)
  assume "CHR ''?'' \<notin> set path"
  then show "parse_path e path = Inr (replace ''/api/quote/'' [] path, ''1d'')"
    by (simp add: parse_path_def split_on_no_sep)
next
  assume h: "CHR ''?'' \<notin> set base \<and> CHR ''?'' \<notin> set q \<and> (rest = [] \<or> hd rest = CHR ''?'')
        \<and> parse_qs (percent_decode e) q ''period'' = None"
  have "\<exists>more. split_on CHR ''?'' (q @ rest) = q # more"
  proof (cases rest)
    case Nil
    then show ?thesis using h by (simp add: split_on_no_sep)
  next
    case (Cons c cs)
    then have "rest = CHR ''?'' # cs" using h by simp
    then show ?thesis using h by (simp add: split_on_append)
  qed
  then obtain more where m: "split_on CHR ''?'' (q @ rest) = q # more" by blast
  have "split_on CHR ''?'' (base @ ''?'' @ q @ rest) = base # q # more"
    using h m by (simp add: split_on_append)
  then show "parse_path e (base @ ''?'' @ q @ rest) = Inr (replace ''/api/quote/'' [] base, ''1d'')"
    using h by (simp add: parse_path_def)
next
  show "get_interval ''1d'' = ''5m''"
    by (simp add: get_interval_def interval_map_def)
next
  show "url (build_request symbol ''1d'')
       = ''https://query1.finance.yahoo.com/v8/finance/chart/'' @ symbol
         @ ''?interval=5m&range=1d''"
    by (simp add: build_request_def get_interval_def interval_map_def)
qed

theorem default_period_witness:
  "CHR ''?'' \<notin> set ''/api/quote/AAPL''
   \<and> parse_qs (percent_decode (test_env (Inr ''{}''))) ''foo=bar'' ''period'' = None
   \<and> parse_path (test_env (Inr ''{}'')) ''/api/quote/AAPL'' = Inr (''AAPL'', ''1d'')
   \<and> parse_path (test_env (Inr ''{}'')) ''/api/quote/AAPL?foo=bar'' = Inr (''AAPL'', ''1d'')
   \<and> get_interval ''1d'' = ''5m''"
proof -
  have a: "CHR ''?'' \<notin> set ''/api/quote/AAPL''" by simp
  have b: "CHR ''?'' \<notin> set ''foo=bar''" by simp
  have c: "parse_qs (percent_decode (test_env (Inr ''{}''))) ''foo=bar'' ''period'' = None"
    by (rule parse_qs_foo_bar)
  have r: "replace ''/api/quote/'' [] ''/api/quote/AAPL'' = ''AAPL''"
    by (simp add: replace.simps)
  show ?thesis
    using a b c r
      default_period [of "''/api/quote/AAPL''" "test_env (Inr ''{}'')" "''/api/quote/AAPL''"
        "''foo=bar''" "[]" "''AAPL''"]
    by simp
qed

text \<open>
  Claim C6. When the upstream call fails with an HTTP error status, the handler answers with
  that same status code and a message that embeds the upstream's reason phrase; an
  upstream 404 gives a 404. The reply is complete: its headers are ended, with the CORS
  headers last.
\<close>

theorem http_error_status_relayed:
  assumes "startswith path ''/api/quote/''"
    and "parse_path e path = Inr (symbol, period)"
    and "urlopen e (build_request symbol period) = Inl (HTTPError code reason)"
    and "raised s = None"
  shows "status_line (do_GET e path s) = Some (code, Some (''API Error: '' @ reason))
       \<and> headers_ended (do_GET e path s)
       \<and> raised (do_GET e path s) = None
       \<and> (\<exists>hs. headers (do_GET e path s) = headers s @ hs @
            [(''Access-Control-Allow-Origin'', ''*''),
             (''Access-Control-Allow-Methods'', ''GET, POST, OPTIONS''),
             (''Access-Control-Allow-Headers'', ''Content-Type'')])"
proof -
  let ?s1 = "s\<lparr>outbound_calls := outbound_calls s @ [build_request symbol period]\<rparr>"
  let ?msg = "code_points ''API Error: '' @ code_points reason"
  have eq: "do_GET e path s = send_error end_headers e ''GET'' code ?msg ?s1"
    using assms by (simp add: do_GET_def handle_api_request_def Let_def)
  have enc: "encode_latin1 ?msg = Some (''API Error: '' @ reason)"
    by (rule encode_latin1_prefixed)
  have r: "raised ?s1 = None" using assms(4) by simp
  have n: "raised (send_error end_headers e ''GET'' code ?msg ?s1) = None"
    by (rule send_error_sent(3) [OF enc r])
  show ?thesis
    unfolding eq
    using send_error_sent(1) [OF enc r, of e "''GET''" code]
      send_error_sent(2) [OF enc r, of e "''GET''" code] n
      send_error_replied(2) [OF n]
    by simp
qed

theorem http_error_status_relayed_witness:
  "startswith ''/api/quote/AAPL'' ''/api/quote/''
   \<and> parse_path (test_env (Inl (HTTPError 404 ''Not Found''))) ''/api/quote/AAPL''
       = Inr (''AAPL'', ''1d'')
   \<and> urlopen (test_env (Inl (HTTPError 404 ''Not Found''))) (build_request ''AAPL'' ''1d'')
       = Inl (HTTPError 404 ''Not Found'')
   \<and> raised fresh = None
   \<and> status_line (do_GET (test_env (Inl (HTTPError 404 ''Not Found''))) ''/api/quote/AAPL'' fresh)
       = Some (404, Some ''API Error: Not Found'')
   \<and> headers_ended (do_GET (test_env (Inl (HTTPError 404 ''Not Found''))) ''/api/quote/AAPL'' fresh)"
proof -
  have a: "startswith ''/api/quote/AAPL'' ''/api/quote/''"
    by (simp add: startswith_def)
  have b: "parse_path (test_env (Inl (HTTPError 404 ''Not Found''))) ''/api/quote/AAPL''
       = Inr (''AAPL'', ''1d'')"
    by (rule parse_path_AAPL)
  have c: "urlopen (test_env (Inl (HTTPError 404 ''Not Found''))) (build_request ''AAPL'' ''1d'')
       = Inl (HTTPError 404 ''Not Found'')"
    by (simp add: test_env_def)
  have d: "raised fresh = None" by (simp add: fresh_def)
  show ?thesis
    using a b c d http_error_status_relayed [OF a b c d] by simp
qed

text \<open>
  Claim C7. When the outbound call fails with a transport error, the handler answers 500
  with a message embedding the connection error; for any other failure it answers 500 with
  a message embedding the exception text; the upstream is not called again. The handler
  hands the exception text to \<open>send_error\<close>, whose status line is encoded as ISO-8859-1.
  When the text holds a code point above 255, \<open>send_error\<close> raises inside the \<open>except\<close>
  clause and no reply is sent. The request GET /api/quote/AAPL?period=a+%E2%82%AC gets
  there: \<open>urlopen\<close> refuses its URL with an exception whose text repeats the decoded
  period, which ends in U+20AC (8364). The text of that exception is the upstream outcome
  of the environment below.
\<close>

theorem error_text_beyond_latin1_gets_no_reply:
  "raised (do_GET (test_env (Inl (Exception (code_points ''URL can not contain control characters: range=a '' @ [8364]))))
      ''/api/quote/AAPL?period=a+%E2%82%AC'' fresh) = Some UnicodeEncodeError
   \<and> status_line (do_GET (test_env (Inl (Exception (code_points ''URL can not contain control characters: range=a '' @ [8364]))))
      ''/api/quote/AAPL?period=a+%E2%82%AC'' fresh) = None
   \<and> headers (do_GET (test_env (Inl (Exception (code_points ''URL can not contain control characters: range=a '' @ [8364]))))
      ''/api/quote/AAPL?period=a+%E2%82%AC'' fresh) = []
   \<and> headers_ended (do_GET (test_env (Inl (Exception (code_points ''URL can not contain control characters: range=a '' @ [8364]))))
      ''/api/quote/AAPL?period=a+%E2%82%AC'' fresh) = False
   \<and> wfile (do_GET (test_env (Inl (Exception (code_points ''URL can not contain control characters: range=a '' @ [8364]))))
      ''/api/quote/AAPL?period=a+%E2%82%AC'' fresh) = []
   \<and> length (outbound_calls (do_GET (test_env (Inl (Exception (code_points ''URL can not contain control characters: range=a '' @ [8364]))))
      ''/api/quote/AAPL?period=a+%E2%82%AC'' fresh)) = 1"
proof -
  let ?text = "code_points ''URL can not contain control characters: range=a '' @ [8364]"
  let ?e = "test_env (Inl (Exception ?text))"
  let ?path = "''/api/quote/AAPL?period=a+%E2%82%AC''"
  obtain symbol period where p: "parse_path ?e ?path = Inr (symbol, period)"
    using parse_path_total by blast
  let ?s1 = "fresh\<lparr>outbound_calls := outbound_calls fresh @ [build_request symbol period]\<rparr>"
  have enc: "encode_latin1 (code_points ''Server Error: '' @ ?text) = None"
    by (simp add: code_points_def)
  have u: "urlopen ?e (build_request symbol period) = Inl (Exception ?text)"
    by (simp add: test_env_def)
  have "do_GET ?e ?path fresh
        = send_error end_headers ?e ''GET'' 500 (code_points ''Server Error: '' @ ?text) ?s1"
    by (simp add: do_GET_def startswith_def handle_api_request_def p u Let_def)
  then have "do_GET ?e ?path fresh = ?s1\<lparr>raised := Some UnicodeEncodeError\<rparr>"
    by (simp only: send_error_raises [OF enc])
  then show ?thesis by (simp add: fresh_def)
qed

text \<open>With a text that ISO-8859-1 can encode, both clauses answer 500 with the text in
  the message, after one outbound call.\<close>

lemma errors_with_latin1_text_get_500:
  assumes "startswith path ''/api/quote/''"
    and "parse_path e path = Inr (symbol, period)"
    and "raised s = None"
  shows "urlopen e (build_request symbol period) = Inl (URLError (code_points reason)) \<Longrightarrow>
            status_line (do_GET e path s) = Some (500, Some (''Connection Error: '' @ reason))
          \<and> headers_ended (do_GET e path s)
          \<and> outbound_calls (do_GET e path s) = outbound_calls s @ [build_request symbol period]"
    and "urlopen e (build_request symbol period) = Inl (Exception (code_points text)) \<Longrightarrow>
            status_line (do_GET e path s) = Some (500, Some (''Server Error: '' @ text))
          \<and> headers_ended (do_GET e path s)
          \<and> outbound_calls (do_GET e path s) = outbound_calls s @ [build_request symbol period]"
  using assms
  by (simp_all add: do_GET_def handle_api_request_def Let_def send_error_sent
      encode_latin1_prefixed send_error_calls)



text \<open>
  Claim C9. An OPTIONS request to any path is answered with status 200 and an empty body.
\<close>

theorem options_status_200_empty_body:
  "status_line (do_OPTIONS e path s) = Some (200, None)
   \<and> wfile (do_OPTIONS e path s) = wfile s
   \<and> wfile (do_OPTIONS e path fresh) = []
   \<and> headers_ended (do_OPTIONS e path s)"
  by (simp add: do_OPTIONS_def out_defs fresh_def)

text \<open>
  Claim C10. The quote handler runs exactly for the GET paths that start with /api/quote/
  (it makes one outbound call); every other GET path, /api/quote included, goes to the
  static-file handler, which makes no outbound call.
\<close>

theorem get_dispatch:
  "(startswith path ''/api/quote/'' \<longrightarrow>
      do_GET e path s = handle_api_request e path s
      \<and> length (outbound_calls (do_GET e path s)) = Suc (length (outbound_calls s)))
   \<and> (\<not> startswith path ''/api/quote/'' \<longrightarrow>
      do_GET e path s = static_do_GET end_headers e path s
      \<and> outbound_calls (do_GET e path s) = outbound_calls s)
   \<and> do_GET e ''/api/quote'' s = static_do_GET end_headers e ''/api/quote'' s
   \<and> (startswith path ''/api/quote/'' \<longleftrightarrow> (\<exists>rest. path = ''/api/quote/'' @ rest))"
proof (intro conjI impI)
  assume "startswith path ''/api/quote/''"
  then show "do_GET e path s = handle_api_request e path s"
    and "length (outbound_calls (do_GET e path s)) = Suc (length (outbound_calls s))"
    by (simp_all add: do_GET_def handle_api_request_calls)
next
  assume "\<not> startswith path ''/api/quote/''"
  then show "do_GET e path s = static_do_GET end_headers e path s"
    and "outbound_calls (do_GET e path s) = outbound_calls s"
    by (simp_all add: do_GET_def static_do_GET_calls)
next
  show "do_GET e ''/api/quote'' s = static_do_GET end_headers e ''/api/quote'' s"
    by (simp add: do_GET_def startswith_def)
next
  show "startswith path ''/api/quote/'' \<longleftrightarrow> (\<exists>rest. path = ''/api/quote/'' @ rest)"
    by (rule startswith_iff)
qed

theorem get_dispatch_witness:
  "startswith ''/api/quote/AAPL'' ''/api/quote/''
   \<and> do_GET (test_env (Inr ''{}'')) ''/api/quote/AAPL'' fresh
       = handle_api_request (test_env (Inr ''{}'')) ''/api/quote/AAPL'' fresh
   \<and> length (outbound_calls (do_GET (test_env (Inr ''{}'')) ''/api/quote/AAPL'' fresh)) = 1
   \<and> \<not> startswith ''/index.html'' ''/api/quote/''
   \<and> do_GET (test_env (Inr ''{}'')) ''/index.html'' fresh
       = static_do_GET end_headers (test_env (Inr ''{}'')) ''/index.html'' fresh
   \<and> outbound_calls (do_GET (test_env (Inr ''{}'')) ''/index.html'' fresh) = []"
proof -
  have a: "startswith ''/api/quote/AAPL'' ''/api/quote/''"
    by (simp add: startswith_def)
  have b: "\<not> startswith ''/index.html'' ''/api/quote/''"
    by (simp add: startswith_def)
  have f: "outbound_calls fresh = []" by (simp add: fresh_def)
  have g: "do_GET (test_env (Inr ''{}'')) ''/api/quote/AAPL'' fresh
       = handle_api_request (test_env (Inr ''{}'')) ''/api/quote/AAPL'' fresh
     \<and> length (outbound_calls (do_GET (test_env (Inr ''{}'')) ''/api/quote/AAPL'' fresh))
         = Suc (length (outbound_calls fresh))"
    using a get_dispatch [of "''/api/quote/AAPL''" "test_env (Inr ''{}'')" fresh] by blast
  have h: "do_GET (test_env (Inr ''{}'')) ''/index.html'' fresh
       = static_do_GET end_headers (test_env (Inr ''{}'')) ''/index.html'' fresh
     \<and> outbound_calls (do_GET (test_env (Inr ''{}'')) ''/index.html'' fresh)
         = outbound_calls fresh"
    using b get_dispatch [of "''/index.html''" "test_env (Inr ''{}'')" fresh] by blast
  have g2: "length (outbound_calls (do_GET (test_env (Inr ''{}'')) ''/api/quote/AAPL'' fresh)) = 1"
    using conjunct2 [OF g] by (simp add: f)
  have h2: "outbound_calls (do_GET (test_env (Inr ''{}'')) ''/index.html'' fresh) = []"
    using conjunct2 [OF h] by (simp add: f)
  show ?thesis
    using a b g g2 h h2 by blast
qed

end
